theory Spec2Isabelle
  imports Main
begin

section \<open>Python values\<close>

text \<open>
  A Python \<open>str\<close> is a sequence of Unicode code points and \<open>len\<close> counts code points,
  so a string is a list of code points here. \<open>lit\<close> turns an ASCII literal of the source
  into such a list.
\<close>

type_synonym pystr = "nat list"

definition lit :: "string \<Rightarrow> pystr" where
  "lit s = map of_char s"

text \<open>\<open>str.isspace\<close> for one code point: the code points CPython strips as whitespace.\<close>

definition isspace :: "nat \<Rightarrow> bool" where
  "isspace c \<longleftrightarrow>
     (9 \<le> c \<and> c \<le> 13) \<or> (28 \<le> c \<and> c \<le> 32) \<or> c = 133 \<or> c = 160 \<or> c = 5760 \<or>
     (8192 \<le> c \<and> c \<le> 8202) \<or> c = 8232 \<or> c = 8233 \<or> c = 8239 \<or> c = 8287 \<or> c = 12288"

text \<open>\<open>s.strip()\<close>: leading and trailing whitespace removed.\<close>

definition strip :: "pystr \<Rightarrow> pystr" where
  "strip s = rev (dropWhile isspace (rev (dropWhile isspace s)))"

text \<open>\<open>sep.join(xs)\<close>.\<close>

fun join :: "pystr \<Rightarrow> pystr list \<Rightarrow> pystr" where
  "join sep [] = []"
| "join sep [x] = x"
| "join sep (x # y # ys) = x @ sep @ join sep (y # ys)"

text \<open>\<open>a in b\<close> on strings: \<open>a\<close> occurs in \<open>b\<close> as a contiguous run.\<close>

fun str_in :: "pystr \<Rightarrow> pystr \<Rightarrow> bool" where
  "str_in a [] = (a = [])"
| "str_in a (c # cs) = (take (length a) (c # cs) = a \<or> str_in a cs)"

text \<open>\<open>str(i)\<close> for an integer: its decimal digits, with a minus sign when negative.\<close>

fun digits :: "nat \<Rightarrow> pystr" where
  "digits n = (if n < 10 then [48 + n] else digits (n div 10) @ [48 + n mod 10])"

declare digits.simps [simp del]

definition str_int :: "int \<Rightarrow> pystr" where
  "str_int i = (if i < 0 then 45 # digits (nat (- i)) else digits (nat i))"

text \<open>
  \<open>hash(i)\<close> for an integer on a 64-bit CPython: the magnitude is reduced modulo the
  Mersenne prime \<open>2^61 - 1\<close>, the sign is kept, and \<open>-1\<close> is replaced by \<open>-2\<close>.
\<close>

definition hash_modulus :: int where
  "hash_modulus = 2 ^ 61 - 1"

definition hash :: "int \<Rightarrow> int" where
  "hash i =
     (let h = (if i < 0 then - ((- i) mod hash_modulus) else i mod hash_modulus)
      in if h = - 1 then - 2 else h)"



subsection \<open>Naive datetimes\<close>

text \<open>
  A naive \<open>datetime\<close> is the number of microseconds since 0001-01-01 00:00:00 and a
  \<open>date\<close> the number of days since 0001-01-01. The difference of two datetimes is a
  \<open>timedelta\<close>, which Python keeps normalised: \<open>0 \<le> seconds < 86400\<close> and
  \<open>0 \<le> microseconds < 1000000\<close>, the rest in \<open>days\<close> (negative for a negative difference).
\<close>

type_synonym datetime = int

type_synonym date = int

definition us_per_second :: int where
  "us_per_second = 1000000"

definition us_per_day :: int where
  "us_per_day = 86400 * 1000000"

record timedelta =
  days :: int
  seconds :: int
  microseconds :: int

definition datetime_sub :: "datetime \<Rightarrow> datetime \<Rightarrow> timedelta" where
  "datetime_sub a b =
     (let us = a - b
      in \<lparr>days = us div us_per_day,
          seconds = (us mod us_per_day) div us_per_second,
          microseconds = us mod us_per_second\<rparr>)"

text \<open>Days before January 1st of a year of the proleptic Gregorian calendar.\<close>

definition days_before_year :: "int \<Rightarrow> int" where
  "days_before_year y = (y - 1) * 365 + (y - 1) div 4 - (y - 1) div 100 + (y - 1) div 400"

text \<open>\<open>datetime.datetime.strptime("2022-01-01", "%Y-%m-%d")\<close>: midnight of 2022-01-01.\<close>

definition strptime_2022_01_01 :: datetime where
  "strptime_2022_01_01 = days_before_year 2022 * us_per_day"

text \<open>\<open>datetime.datetime.combine(d, datetime.datetime.min.time())\<close>: midnight of the date.\<close>

definition combine_min_time :: "date \<Rightarrow> datetime" where
  "combine_min_time d = d * us_per_day"

text \<open>\<open>max(xs, default=d)\<close>.\<close>

fun max_default :: "int list \<Rightarrow> int \<Rightarrow> int" where
  "max_default [] d = d"
| "max_default (x # xs) d = fold max xs x"

section \<open>The bot's constants and data\<close>

definition min_requests_delay :: int where
  "min_requests_delay = 60"

definition max_images_per_day :: int where
  "max_images_per_day = 5"

text \<open>\<open>MESSAGE, EMPTY_MESSAGE = range(2)\<close>: the two conversation states.\<close>

datatype conv_state = MESSAGE | EMPTY_MESSAGE

text \<open>
  A row of the data frame \<open>df\<close>, with the columns of \<open>df_columns\<close>. The frame is the
  list of its rows in insertion order, each with its row label (the frame's index).
  The rows read from the file at start are labelled 0, 1, 2 and so on; the one-row
  frame built at line 83 has the label 0 and \<open>pd.concat\<close> keeps the labels, so every
  row appended while the process runs is labelled 0.
\<close>

record row =
  col_group :: bool
  col_timestamp :: datetime
  col_prompt :: pystr
  col_size :: int
  col_hashed_user :: int

type_synonym dataframe = "(int \<times> row) list"

text \<open>
  The fields of \<open>update.message\<close> the handlers read: \<open>chat.id\<close>, \<open>chat.type\<close>
  (\<open>None\<close> when reading it raises, which \<open>generate\<close> catches), \<open>from_user.id\<close> and \<open>text\<close>.
\<close>

record update =
  chat_id :: int
  chat_type :: "pystr option"
  from_user_id :: int
  message_text :: pystr

text \<open>
  What is raised during a request: the two \<open>openai.error\<close> classes that \<open>generate\<close>
  catches, with \<open>str(e)\<close>; the two exceptions of a selection of rows by a boolean
  mask; and every other exception, with its text.
\<close>

datatype exn =
    InvalidRequestError pystr
  | RateLimitError pystr
  | IndexError
  | IndexingError
  | OtherException pystr

text \<open>
  The texts the bot sends, each with the values its f-string interpolates; \<open>render\<close>
  gives the characters.
\<close>

datatype notice =
    TooSoonText int int
  | QuotaText int
  | AskPromptText
  | PolicyText
  | PolicyTextDev pystr
  | ErrorText pystr
  | ErrorTextDev pystr pystr
  | ReportText pystr

fun render :: "notice \<Rightarrow> pystr" where
  "render (TooSoonText delay wait) =
     lit ''Sorry, due to resource constraints, it's only allowed to send one request per ''
     @ str_int delay @ lit '' seconds.'' @ [10]
     @ lit ''Please try again in '' @ str_int wait @ lit '' seconds.''"
| "render (QuotaText limit) =
     lit ''Sorry, as the image generation is not for free, there is a limit of ''
     @ str_int limit @ lit '' per day. Please try again tomorrow.''"
| "render AskPromptText = lit ''K let's do this! What image should I generate?''"
| "render PolicyText = lit ''This prompt doesn't comply with OpenAI's content policy.''"
| "render (PolicyTextDev prompt) =
     lit ''This prompt doesn't comply with OpenAI's content policy: '' @ prompt @ lit ''.''"
| "render (ErrorText e) = e"
| "render (ErrorTextDev prompt e) = prompt @ [10] @ e"
| "render (ReportText m) = m"

text \<open>
  The calls that leave the process, in the order they are issued: the Bot API calls
  (\<open>send_chat_action\<close>, \<open>send_message\<close>, \<open>send_message\<close> with \<open>parse_mode=HTML\<close>,
  \<open>send_photo\<close> with its caption), the rewrite of the CSV file with all rows of the
  frame (\<open>index=False\<close>: without their labels),
  \<open>openai.Moderation.create(prompt)\<close> and
  \<open>openai.Image.create(prompt, n, size, user)\<close>. A call that raises is listed too.
\<close>

datatype effect =
    SendChatAction int pystr
  | SendMessage int notice
  | SendMessageHTML int notice
  | SendPhoto int pystr pystr
  | ToCsv "row list"
  | ModerationCreate pystr
  | ImageCreate pystr int pystr pystr

text \<open>
  What the surroundings answer during one request: the two clock readings
  (\<open>datetime.datetime.now()\<close> and \<open>datetime.date.today()\<close>), the configured
  \<open>developer_chat_id\<close>, and for each call whether it returns or raises. A Bot API call
  and the file write raise an exception of their own libraries (\<open>Some m\<close>, with \<open>m\<close> its
  text), never one of the two \<open>openai.error\<close> classes. \<open>moderation\<close>
  answers with \<open>response["results"][0]["flagged"]\<close>, \<open>image\<close> with
  \<open>response["data"][0]["url"]\<close>; a response without these keys raises inside the
  \<open>try\<close> block like any other exception.
\<close>

record env =
  clock_now :: datetime
  clock_today :: date
  developer_chat_id :: int
  bot :: "effect \<Rightarrow> pystr option"
  to_csv :: "row list \<Rightarrow> pystr option"
  moderation :: "pystr \<Rightarrow> exn + bool"
  image :: "pystr \<Rightarrow> int \<Rightarrow> pystr \<Rightarrow> pystr \<Rightarrow> exn + pystr"

section \<open>Statements, exceptions and the global frame\<close>

text \<open>
  The state of a run is the global \<open>df\<close> and the calls issued so far. A statement maps
  the state to a result (\<open>Inl\<close>: the exception raised) and the new state; \<open>bind\<close>
  runs a statement and then the rest, unless the statement raised.
\<close>

record state =
  df :: dataframe
  trace :: "effect list"

type_synonym 'a prog = "state \<Rightarrow> (exn + 'a) \<times> state"

definition return :: "'a \<Rightarrow> 'a prog" where
  "return a s = (Inr a, s)"

definition bind :: "'a prog \<Rightarrow> ('a \<Rightarrow> 'b prog) \<Rightarrow> 'b prog" where
  "bind m f s = (case m s of (Inl e, s') \<Rightarrow> (Inl e, s') | (Inr a, s') \<Rightarrow> f a s')"

text \<open>
  \<open>try: m except ...\<close>: \<open>h e\<close> is the handler of the clause that catches \<open>e\<close>, or
  \<open>None\<close> when no clause does (or the clause re-raises it).
\<close>

definition try_except :: "'a prog \<Rightarrow> (exn \<Rightarrow> 'a prog option) \<Rightarrow> 'a prog" where
  "try_except m h s =
     (case m s of
        (Inr a, s') \<Rightarrow> (Inr a, s')
      | (Inl e, s') \<Rightarrow> (case h e of None \<Rightarrow> (Inl e, s') | Some k \<Rightarrow> k s'))"

definition issue :: "effect \<Rightarrow> state \<Rightarrow> state" where
  "issue c s = s\<lparr>trace := trace s @ [c]\<rparr>"

definition bot_call :: "env \<Rightarrow> effect \<Rightarrow> unit prog" where
  "bot_call w c s =
     (case bot w c of Some m \<Rightarrow> Inl (OtherException m) | None \<Rightarrow> Inr (), issue c s)"

text \<open>\<open>df = pd.concat([df, pd.DataFrame([r], columns=df_columns)])\<close>.\<close>

definition df_concat :: "row \<Rightarrow> unit prog" where
  "df_concat r s = (Inr (), s\<lparr>df := df s @ [(0, r)]\<rparr>)"

text \<open>\<open>df.to_csv(csv_file_name, header=True, index=False)\<close>: the whole frame is written.\<close>

definition df_to_csv :: "env \<Rightarrow> unit prog" where
  "df_to_csv w s =
     (case to_csv w (map snd (df s)) of Some m \<Rightarrow> Inl (OtherException m) | None \<Rightarrow> Inr (),
      issue (ToCsv (map snd (df s))) s)"

definition Moderation_create :: "env \<Rightarrow> pystr \<Rightarrow> bool prog" where
  "Moderation_create w prompt s = (moderation w prompt, issue (ModerationCreate prompt) s)"

definition Image_create :: "env \<Rightarrow> pystr \<Rightarrow> int \<Rightarrow> pystr \<Rightarrow> pystr \<Rightarrow> pystr prog" where
  "Image_create w prompt n sz usr s = (image w prompt n sz usr, issue (ImageCreate prompt n sz usr) s)"

section \<open>The handlers\<close>

definition TYPING :: pystr where
  "TYPING = lit ''typing''"

text \<open>
  \<open>generate\<close>, lines 60 to 111: the typing indicator, the row appended to \<open>df\<close> and the
  file rewritten, then the \<open>try\<close> block with the moderation call and, when the prompt
  is not flagged, the image call and the two photos; the first \<open>except\<close> clause
  reports an \<open>InvalidRequestError\<close> or a \<open>RateLimitError\<close> to both chats, the second
  re-raises everything else.
\<close>

definition generate ::
  "env \<Rightarrow> update \<Rightarrow> pystr \<Rightarrow> int \<Rightarrow> datetime \<Rightarrow> int \<Rightarrow> int \<Rightarrow> conv_state prog" where
  "generate w u prompt chat datetime_now hashed_user sz =
     bind (bot_call w (SendChatAction chat TYPING)) (\<lambda>_.
     let is_group = (case chat_type u of None \<Rightarrow> False | Some t \<Rightarrow> str_in (lit ''group'') t) in
     bind (df_concat \<lparr>col_group = is_group, col_timestamp = datetime_now, col_prompt = prompt,
                      col_size = sz, col_hashed_user = hashed_user\<rparr>) (\<lambda>_.
     bind (df_to_csv w) (\<lambda>_.
     let is_group_text = (if is_group then lit ''group: '' else lit ''single user: '');
         report = (\<lambda>e.
           bind (bot_call w (SendMessage chat (ErrorText e))) (\<lambda>_.
           bot_call w (SendMessage (developer_chat_id w) (ErrorTextDev prompt e))))
     in
     bind
       (try_except
          (bind (Moderation_create w prompt) (\<lambda>flagged.
             if \<not> flagged then
               bind (Image_create w prompt 1 (str_int sz @ lit ''x'' @ str_int sz) (str_int hashed_user))
                 (\<lambda>image_url.
               bind (bot_call w (SendPhoto chat image_url prompt)) (\<lambda>_.
               bot_call w (SendPhoto (developer_chat_id w) image_url (is_group_text @ prompt))))
             else
               bind (bot_call w (SendMessage chat PolicyText)) (\<lambda>_.
               bot_call w (SendMessage (developer_chat_id w) (PolicyTextDev prompt)))))
          (\<lambda>e. case e of
             InvalidRequestError m \<Rightarrow> Some (report m)
           | RateLimitError m \<Rightarrow> Some (report m)
           | _ \<Rightarrow> None))
       (\<lambda>_. return MESSAGE))))"

text \<open>The default of the parameter \<open>size\<close> of \<open>generate\<close>.\<close>

definition default_size :: int where
  "default_size = 256"

text \<open>
  The selection of rows by a boolean mask, \<open>frame[key]\<close>, as pandas carries it out.
  The mask \<open>key\<close> is a series of booleans with row labels of its own. When its labels
  are those of the frame, the rows at the positions of its true values are taken.
  Otherwise the mask is first re-aligned on the labels of the frame:
  \<open>get_indexer_for\<close> lists, for each label of the frame in turn, every position of that
  label in the mask, the mask's values at these positions make the new mask, and the
  rows at the positions of its true values are taken. Taking a position that the frame
  does not have raises \<open>IndexError\<close>; a label that the mask does not have raises
  \<open>IndexingError\<close>.
\<close>

type_synonym bool_series = "(int \<times> bool) list"

text \<open>The positions of the label \<open>l\<close> in an index, counted from \<open>i\<close>, in ascending order.\<close>

fun positions_from :: "nat \<Rightarrow> int \<Rightarrow> int list \<Rightarrow> nat list" where
  "positions_from i l [] = []"
| "positions_from i l (x # xs) =
     (if x = l then i # positions_from (Suc i) l xs else positions_from (Suc i) l xs)"

text \<open>
  \<open>index.get_indexer_for(target)\<close>; \<open>None\<close> stands for a result that holds \<open>-1\<close>, the
  mark of a label that the index does not have.
\<close>

definition get_indexer_for :: "int list \<Rightarrow> int list \<Rightarrow> nat list option" where
  "get_indexer_for index target =
     (if list_all (\<lambda>l. l \<in> set index) target
      then Some (concat (map (\<lambda>l. positions_from 0 l index) target))
      else None)"

text \<open>\<open>values.nonzero()[0]\<close>: the positions of the true values, counted from \<open>i\<close>.\<close>

fun nonzero_from :: "nat \<Rightarrow> bool list \<Rightarrow> nat list" where
  "nonzero_from i [] = []"
| "nonzero_from i (b # bs) =
     (if b then i # nonzero_from (Suc i) bs else nonzero_from (Suc i) bs)"

text \<open>\<open>frame.take(ps)\<close>: the rows at the positions \<open>ps\<close>.\<close>

definition take_rows :: "dataframe \<Rightarrow> nat list \<Rightarrow> exn + dataframe" where
  "take_rows frame ps =
     (if list_all (\<lambda>p. p < length frame) ps then Inr (map (\<lambda>p. frame ! p) ps)
      else Inl IndexError)"

definition getitem_bool :: "dataframe \<Rightarrow> bool_series \<Rightarrow> exn + dataframe" where
  "getitem_bool frame key =
     (if map fst key = map fst frame then take_rows frame (nonzero_from 0 (map snd key))
      else case get_indexer_for (map fst key) (map fst frame) of
             None \<Rightarrow> Inl IndexingError
           | Some indexer \<Rightarrow> take_rows frame (nonzero_from 0 (map (\<lambda>i. snd (key ! i)) indexer)))"

text \<open>The masks \<open>df.hashed_user == hashed_user\<close> and \<open>df.timestamp >= today\<close>.\<close>

definition hashed_user_eq :: "dataframe \<Rightarrow> int \<Rightarrow> bool_series" where
  "hashed_user_eq d hashed_user = map (\<lambda>x. (fst x, col_hashed_user (snd x) = hashed_user)) d"

definition timestamp_ge :: "dataframe \<Rightarrow> datetime \<Rightarrow> bool_series" where
  "timestamp_ge d today = map (\<lambda>x. (fst x, today \<le> col_timestamp (snd x))) d"

text \<open>
  The expressions of \<open>check_if_prompt_empty_and_message_not_too_early\<close>, lines 134 to
  150, named after the variables they are assigned to. At line 135 the mask has the
  labels of the frame it selects from, so the selection is the rows of the user. At
  line 150, \<open>df[df.hashed_user == hashed_user][df.timestamp >= today].shape[0]\<close>, the
  second mask is computed on the whole frame and applied to the rows of the user.
\<close>

definition max_datetime_for_user :: "dataframe \<Rightarrow> int \<Rightarrow> datetime" where
  "max_datetime_for_user d hashed_user =
     max_default
       (map (\<lambda>x. col_timestamp (snd x)) (filter (\<lambda>x. col_hashed_user (snd x) = hashed_user) d))
       strptime_2022_01_01"

definition seconds_diff :: "datetime \<Rightarrow> datetime \<Rightarrow> int" where
  "seconds_diff datetime_now max_datetime = seconds (datetime_sub datetime_now max_datetime)"

definition number_of_requests_per_day :: "dataframe \<Rightarrow> int \<Rightarrow> datetime \<Rightarrow> exn + int" where
  "number_of_requests_per_day d hashed_user today =
     (case getitem_bool d (hashed_user_eq d hashed_user) of
        Inl e \<Rightarrow> Inl e
      | Inr selected \<Rightarrow>
          (case getitem_bool selected (timestamp_ge d today) of
             Inl e \<Rightarrow> Inl e
           | Inr rows \<Rightarrow> Inr (int (length rows))))"

text \<open>
  \<open>check_if_prompt_empty_and_message_not_too_early\<close>, lines 128 to 165. An exception of
  line 150 is not caught: the handler raises it.
\<close>

definition check_if_prompt_empty_and_message_not_too_early ::
  "env \<Rightarrow> update \<Rightarrow> pystr \<Rightarrow> conv_state prog" where
  "check_if_prompt_empty_and_message_not_too_early w u prompt s =
     (let chat = chat_id u;
          hashed_user = hash (from_user_id u);
          datetime_now = clock_now w;
          diff = seconds_diff datetime_now (max_datetime_for_user (df s) hashed_user)
      in
      if diff < min_requests_delay then
        bind (bot_call w (SendMessage chat (TooSoonText min_requests_delay (min_requests_delay - diff))))
          (\<lambda>_. return EMPTY_MESSAGE) s
      else
        let today = combine_min_time (clock_today w) in
        case number_of_requests_per_day (df s) hashed_user today of
          Inl e \<Rightarrow> (Inl e, s)
        | Inr n \<Rightarrow>
            if n > max_images_per_day then
              bind (bot_call w (SendMessage chat (QuotaText max_images_per_day)))
                (\<lambda>_. return EMPTY_MESSAGE) s
            else if length prompt = 0 \<or> prompt = [] then
              bind (bot_call w (SendMessage chat AskPromptText)) (\<lambda>_. return EMPTY_MESSAGE) s
            else generate w u prompt chat datetime_now hashed_user default_size s)"

text \<open>\<open>generate_from_command\<close>: the prompt is the command's arguments joined by a space.\<close>

definition generate_from_command :: "env \<Rightarrow> update \<Rightarrow> pystr list \<Rightarrow> conv_state prog" where
  "generate_from_command w u args =
     check_if_prompt_empty_and_message_not_too_early w u (strip (join (lit '' '') args))"

text \<open>\<open>generate_from_message\<close>: the prompt is the text of the message.\<close>

definition generate_from_message :: "env \<Rightarrow> update \<Rightarrow> conv_state prog" where
  "generate_from_message w u =
     check_if_prompt_empty_and_message_not_too_early w u (strip (message_text u))"


section \<open>The vocabulary of the specification\<close>

text \<open>
  The specification names the result of a request by an outcome. Here the outcome of
  a run that returned is read off the calls it issued: the first notice or photo sent
  says which branch was taken. A run that raised has no outcome.
\<close>

datatype outcome = TooSoon int | QuotaExceeded | PromptRequired | Blocked | Delivered | ProviderError

fun outcome_of_call :: "effect \<Rightarrow> outcome option" where
  "outcome_of_call (SendMessage c (TooSoonText delay wait)) = Some (TooSoon wait)"
| "outcome_of_call (SendMessage c (QuotaText limit)) = Some QuotaExceeded"
| "outcome_of_call (SendMessage c AskPromptText) = Some PromptRequired"
| "outcome_of_call (SendMessage c PolicyText) = Some Blocked"
| "outcome_of_call (SendMessage c (ErrorText m)) = Some ProviderError"
| "outcome_of_call (SendPhoto c image_url caption) = Some Delivered"
| "outcome_of_call e = None"

definition outcome_of :: "(exn + conv_state) \<times> state \<Rightarrow> outcome option" where
  "outcome_of run =
     (case fst run of
        Inl e \<Rightarrow> None
      | Inr st \<Rightarrow> (case List.map_filter outcome_of_call (trace (snd run)) of
                   [] \<Rightarrow> None
                 | x # xs \<Rightarrow> Some x))"

text \<open>The calls to the provider: the moderation check and the image generation.\<close>

fun is_provider_call :: "effect \<Rightarrow> bool" where
  "is_provider_call (ModerationCreate prompt) = True"
| "is_provider_call (ImageCreate prompt n sz usr) = True"
| "is_provider_call e = False"

section \<open>Concrete inputs\<close>

text \<open>
  Surroundings with the given clock readings and the given answer of the moderation
  check, in which every other call returns; the image call answers with a URL.
\<close>

definition example_env :: "datetime \<Rightarrow> date \<Rightarrow> exn + bool \<Rightarrow> env" where
  "example_env t d answer =
     \<lparr>clock_now = t, clock_today = d, developer_chat_id = 1,
      bot = (\<lambda>c. None), to_csv = (\<lambda>rows. None),
      moderation = (\<lambda>prompt. answer),
      image = (\<lambda>prompt n sz usr. Inr (lit ''https://img''))\<rparr>"

text \<open>A message of user 12345 in the private chat 7.\<close>

definition example_update :: "pystr \<Rightarrow> update" where
  "example_update txt =
     \<lparr>chat_id = 7, chat_type = Some (lit ''private''), from_user_id = 12345, message_text = txt\<rparr>"

text \<open>The datetime \<open>secs\<close> seconds after midnight of day \<open>d\<close>; day 738644 is 2023-05-05.\<close>

definition at_time :: "date \<Rightarrow> int \<Rightarrow> datetime" where
  "at_time d secs = d * us_per_day + secs * us_per_second"

text \<open>The row of a request of user 12345 accepted at \<open>t\<close>.\<close>

definition example_row :: "datetime \<Rightarrow> row" where
  "example_row t =
     \<lparr>col_group = False, col_timestamp = t, col_prompt = lit ''a cat'', col_size = 256,
      col_hashed_user = 12345\<rparr>"

text \<open>
  Six requests of user 12345 accepted on 2023-05-05, at 01:00, 02:00, up to 06:00.
\<close>

definition example_rows :: "row list" where
  "example_rows =
     [example_row (at_time 738644 3600), example_row (at_time 738644 7200),
      example_row (at_time 738644 10800), example_row (at_time 738644 14400),
      example_row (at_time 738644 18000), example_row (at_time 738644 21600)]"

text \<open>The row of a request of user 999 accepted at \<open>t\<close>.\<close>

definition other_row :: "datetime \<Rightarrow> row" where
  "other_row t =
     \<lparr>col_group = False, col_timestamp = t, col_prompt = lit ''a dog'', col_size = 256,
      col_hashed_user = 999\<rparr>"

text \<open>
  The frame of a process that started with no file and accepted the requests of the
  given rows, in this order: every label is 0.
\<close>

definition in_process :: "row list \<Rightarrow> dataframe" where
  "in_process rows = map (Pair 0) rows"

text \<open>Surroundings in which every Bot API call times out.\<close>

definition timeout_env :: "datetime \<Rightarrow> date \<Rightarrow> env" where
  "timeout_env t d = (example_env t d (Inr False))\<lparr>bot := (\<lambda>c. Some (lit ''Timed out''))\<rparr>"

text \<open>
  Surroundings in which the moderation check flags the prompt and every message to
  chat 7 times out, while the other calls return.
\<close>

definition requester_timeout_env :: "datetime \<Rightarrow> date \<Rightarrow> env" where
  "requester_timeout_env t d =
     (example_env t d (Inr True))
       \<lparr>bot := (\<lambda>c. case c of
                      SendMessage chat n \<Rightarrow> if chat = 7 then Some (lit ''Timed out'') else None
                    | _ \<Rightarrow> None)\<rparr>"

section \<open>Properties\<close>

subsection \<open>Unfolding the model\<close>

lemmas run_defs = bind_def return_def try_except_def bot_call_def df_concat_def df_to_csv_def
  issue_def Moderation_create_def Image_create_def

lemmas clock_defs = seconds_diff_def datetime_sub_def strptime_2022_01_01_def days_before_year_def
  combine_min_time_def us_per_day_def us_per_second_def

lemmas select_defs = number_of_requests_per_day_def getitem_bool_def get_indexer_for_def
  take_rows_def hashed_user_eq_def timestamp_ge_def

lemmas check_defs = check_if_prompt_empty_and_message_not_too_early_def Let_def hash_def
  hash_modulus_def max_datetime_for_user_def min_requests_delay_def max_images_per_day_def
  default_size_def

lemmas example_defs = example_env_def example_update_def example_row_def at_time_def
  example_rows_def other_row_def in_process_def

lemma example_facts:
  "lit ''a cat'' \<noteq> []" "\<not> str_in (lit ''group'') (lit ''private'')"
  by (simp_all add: lit_def)

lemma str_int_256: "str_int 256 = lit ''256''"
  by (simp add: str_int_def digits.simps lit_def)

lemma str_int_12345: "str_int 12345 = lit ''12345''"
  by (simp add: str_int_def digits.simps lit_def)

subsection \<open>Selections by a mask\<close>

text \<open>The positions of the true values of a mask of \<open>n\<close> values lie between \<open>i\<close> and \<open>i + n\<close>.\<close>

lemma nonzero_from_bound: "p \<in> set (nonzero_from i bs) \<Longrightarrow> i \<le> p \<and> p < i + length bs"
  by (induction bs arbitrary: i) (fastforce split: if_splits)+

text \<open>Taking the rows at the positions where a condition holds keeps the rows that satisfy it.\<close>

lemma nonzero_from_nth:
  "map (\<lambda>p. (pre @ xs) ! p) (nonzero_from (length pre) (map P xs)) = filter P xs"
proof (induction xs arbitrary: pre)
  case Nil
  then show ?case by simp
next
  case (Cons x xs)
  from Cons.IH [of "pre @ [x]"] show ?case
    by simp
qed

lemma take_rows_own_mask: "take_rows frame (nonzero_from 0 (map P frame)) = Inr (filter P frame)"
proof -
  have "list_all (\<lambda>p. p < length frame) (nonzero_from 0 (map P frame))"
    using nonzero_from_bound [of _ 0 "map P frame"] by (auto simp: list_all_iff)
  moreover have "map (\<lambda>p. frame ! p) (nonzero_from 0 (map P frame)) = filter P frame"
    using nonzero_from_nth [of "[]" frame P] by simp
  ultimately show ?thesis
    by (simp add: take_rows_def)
qed

text \<open>
  A mask computed on the frame it selects from has the labels of that frame, so the
  selection is a plain filter and raises nothing. This is the case of line 135 and of
  the first selection of line 150.
\<close>

lemma getitem_bool_own_mask:
  "getitem_bool frame (map (\<lambda>x. (fst x, P x)) frame) = Inr (filter P frame)"
  by (simp add: getitem_bool_def comp_def take_rows_own_mask)

lemma rows_of_user:
  "getitem_bool d (hashed_user_eq d h) = Inr (filter (\<lambda>x. col_hashed_user (snd x) = h) d)"
  unfolding hashed_user_eq_def by (rule getitem_bool_own_mask)

text \<open>
  When every row of the frame belongs to the user, the second mask of line 150 has the
  labels of the selection, and the count is the number of rows of the day.
\<close>

lemma number_of_requests_one_user:
  assumes "\<forall>x \<in> set d. col_hashed_user (snd x) = h"
  shows "number_of_requests_per_day d h today
         = Inr (int (length (filter (\<lambda>x. today \<le> col_timestamp (snd x)) d)))"
proof -
  from assms have "filter (\<lambda>x. col_hashed_user (snd x) = h) d = d"
    by (simp add: filter_id_conv)
  then show ?thesis
    by (simp add: number_of_requests_per_day_def rows_of_user timestamp_ge_def
        getitem_bool_own_mask)
qed

text \<open>A user with no row in the frame has an empty selection, and the count is 0.\<close>

lemma getitem_bool_empty: "getitem_bool [] key = Inr []"
  by (simp add: getitem_bool_def get_indexer_for_def take_rows_def)

lemma number_of_requests_new_identity:
  assumes "\<forall>x \<in> set d. col_hashed_user (snd x) \<noteq> h"
  shows "number_of_requests_per_day d h today = Inr 0"
proof -
  from assms have "filter (\<lambda>x. col_hashed_user (snd x) = h) d = []"
    by (simp add: filter_empty_conv)
  then show ?thesis
    by (simp add: number_of_requests_per_day_def rows_of_user getitem_bool_empty)
qed

text \<open>
  Two examples of the count at midnight of 2023-05-05. A user alone in the frame with
  a row of 2023-05-04 at 23:59:59 and a row of 2023-05-05 at 00:00:00 has a count of 1.
  A user whose only row is of the day before, in a frame that starts with a row of the
  day of another user, has a count of 1 too: the re-aligned mask is true at position 0,
  where the selection has the row of the day before.
\<close>

lemma count_examples:
  "number_of_requests_per_day
     (in_process [example_row (at_time 738643 86399), example_row (at_time 738644 0)])
     12345 (combine_min_time 738644) = Inr 1"
  "number_of_requests_per_day
     (in_process [other_row (at_time 738644 0), example_row (at_time 738643 86399)])
     12345 (combine_min_time 738644) = Inr 1"
  by (simp_all add: select_defs clock_defs example_defs)

subsection \<open>The gap between two requests\<close>

text \<open>
  \<open>seconds_diff\<close> is the \<open>seconds\<close> field of the difference, not the whole difference
  in seconds: for a request a whole number \<open>k\<close> of seconds after the last one it is
  \<open>k mod 86400\<close>, so whole days are dropped.
\<close>

lemma seconds_diff_whole_seconds: "seconds_diff (t + k * us_per_second) t = k mod 86400"
proof -
  have "k * 1000000 mod (86400 * 1000000) = (k mod 86400) * (1000000::int)"
    by (rule mod_mult_mult2)
  then show ?thesis
    by (simp add: seconds_diff_def datetime_sub_def us_per_day_def us_per_second_def)
qed

text \<open>
  An identity with no row in the frame gets the default of \<open>max\<close>, midnight of
  2022-01-01, and its gap is the time of day of the request in seconds.
\<close>

lemma max_datetime_new_identity:
  "\<forall>x \<in> set d. col_hashed_user (snd x) \<noteq> h \<Longrightarrow> max_datetime_for_user d h = strptime_2022_01_01"
proof -
  assume "\<forall>x \<in> set d. col_hashed_user (snd x) \<noteq> h"
  then have "filter (\<lambda>x. col_hashed_user (snd x) = h) d = []"
    by (simp add: filter_empty_conv)
  then show ?thesis
    by (simp add: max_datetime_for_user_def)
qed

lemma seconds_diff_new_identity:
  assumes "\<forall>x \<in> set d. col_hashed_user (snd x) \<noteq> h"
  shows "seconds_diff (at_time day secs) (max_datetime_for_user d h) = secs mod 86400"
proof -
  have "at_time day secs = strptime_2022_01_01 + ((day - 738155) * 86400 + secs) * us_per_second"
    by (simp add: at_time_def clock_defs algebra_simps)
  then have "seconds_diff (at_time day secs) strptime_2022_01_01 = ((day - 738155) * 86400 + secs) mod 86400"
    by (simp only: seconds_diff_whole_seconds)
  also have "\<dots> = secs mod 86400"
    by (simp add: mod_add_left_eq [symmetric] flip: mod_add_eq)
  finally show ?thesis
    using assms by (simp add: max_datetime_new_identity)
qed

text \<open>
  C1. The claim: an identity with no row in the frame is never told to wait, whatever
  the time of the request. The code: user 12345 has no row, sends \<open>a cat\<close> on
  2023-05-05 at 00:00:30, and is told to wait 30 seconds; nothing is recorded and the
  conversation moves to \<open>EMPTY_MESSAGE\<close>.
\<close>

theorem first_request_after_midnight_is_too_soon:
  "check_if_prompt_empty_and_message_not_too_early
     (example_env (at_time 738644 30) 738644 (Inr False)) (example_update (lit ''a cat'')) (lit ''a cat'')
     \<lparr>df = [], trace = []\<rparr>
   = (Inr EMPTY_MESSAGE, \<lparr>df = [], trace = [SendMessage 7 (TooSoonText 60 30)]\<rparr>)"
  by (simp add: check_defs clock_defs example_defs run_defs)

text \<open>
  C3. The claim: a request 60 seconds or more after the last accepted one passes the
  interval check. The code: the last request of user 12345 was accepted on 2023-05-05
  at 12:00:00; the next one, on 2023-05-06 at 12:00:30, a day and 30 seconds later, is
  told to wait 30 seconds.
\<close>

theorem request_a_day_and_30s_later_is_too_soon:
  "check_if_prompt_empty_and_message_not_too_early
     (example_env (at_time 738645 43230) 738645 (Inr False)) (example_update (lit ''a cat'')) (lit ''a cat'')
     \<lparr>df = in_process [example_row (at_time 738644 43200)], trace = []\<rparr>
   = (Inr EMPTY_MESSAGE,
      \<lparr>df = in_process [example_row (at_time 738644 43200)],
       trace = [SendMessage 7 (TooSoonText 60 30)]\<rparr>)"
  by (simp add: check_defs clock_defs example_defs run_defs)

text \<open>
  The part of C3 that the code does: 59 seconds after the accepted request the
  requester is told to wait 1 second, and nothing else happens.
\<close>

lemma request_59s_later_is_too_soon:
  "check_if_prompt_empty_and_message_not_too_early
     (example_env (at_time 738644 43259) 738644 (Inr False)) (example_update (lit ''a cat'')) (lit ''a cat'')
     \<lparr>df = in_process [example_row (at_time 738644 43200)], trace = []\<rparr>
   = (Inr EMPTY_MESSAGE,
      \<lparr>df = in_process [example_row (at_time 738644 43200)],
       trace = [SendMessage 7 (TooSoonText 60 1)]\<rparr>)"
  by (simp add: check_defs clock_defs example_defs run_defs)

subsection \<open>The identity of a user\<close>

text \<open>\<open>hash\<close> returns a non-negative integer below \<open>2^61 - 1\<close> unchanged.\<close>

lemma hash_small: "0 \<le> i \<Longrightarrow> i < 2 ^ 61 - 1 \<Longrightarrow> hash i = i"
  by (simp add: hash_def hash_modulus_def Let_def)

text \<open>
  C8. The claim: the stored identity is a one-way hash and the raw user id is never
  stored. The code: the first request of the user with id 12345 is accepted; the row
  appended to the frame and written to the file holds 12345 in the column
  \<open>hashed_user\<close>, and the image call is made for the user \<open>12345\<close>.
\<close>

theorem stored_identity_is_the_raw_user_id:
  "from_user_id (example_update (lit ''a cat'')) = 12345
   \<and> col_hashed_user (example_row (at_time 738644 43200)) = 12345
   \<and> check_if_prompt_empty_and_message_not_too_early
       (example_env (at_time 738644 43200) 738644 (Inr False)) (example_update (lit ''a cat'')) (lit ''a cat'')
       \<lparr>df = [], trace = []\<rparr>
     = (Inr MESSAGE,
        \<lparr>df = in_process [example_row (at_time 738644 43200)],
         trace = [SendChatAction 7 TYPING, ToCsv [example_row (at_time 738644 43200)],
                  ModerationCreate (lit ''a cat''),
                  ImageCreate (lit ''a cat'') 1 (lit ''256x256'') (lit ''12345''),
                  SendPhoto 7 (lit ''https://img'') (lit ''a cat''),
                  SendPhoto 1 (lit ''https://img'') (lit ''single user: a cat'')]\<rparr>)"
  by (simp add: check_defs clock_defs select_defs example_defs run_defs generate_def str_int_256
      str_int_12345)
    (simp add: lit_def)

subsection \<open>The branches of a request\<close>

text \<open>A rejection: one notice to the requester, then \<open>return EMPTY_MESSAGE\<close>.\<close>

lemma notify_run:
  "bind (bot_call w (SendMessage c n)) (\<lambda>_. return EMPTY_MESSAGE) \<lparr>df = d, trace = []\<rparr>
   = (case bot w (SendMessage c n) of Some m \<Rightarrow> Inl (OtherException m) | None \<Rightarrow> Inr EMPTY_MESSAGE,
      \<lparr>df = d, trace = [SendMessage c n]\<rparr>)"
  by (simp add: run_defs split: option.splits)

text \<open>
  The five ways through \<open>check_if_prompt_empty_and_message_not_too_early\<close>: too soon;
  the count of line 150 raises; over the quota; an empty prompt; and the call of
  \<open>generate\<close>.
\<close>

lemma check_cases [consumes 1, case_names soon raised quota empty admitted]:
  assumes run: "check_if_prompt_empty_and_message_not_too_early w u prompt \<lparr>df = d, trace = []\<rparr>
                = (r, s')"
  obtains
    "seconds_diff (clock_now w) (max_datetime_for_user d (hash (from_user_id u))) < 60"
    "bind (bot_call w (SendMessage (chat_id u) (TooSoonText 60
        (60 - seconds_diff (clock_now w) (max_datetime_for_user d (hash (from_user_id u)))))))
       (\<lambda>_. return EMPTY_MESSAGE) \<lparr>df = d, trace = []\<rparr> = (r, s')"
  | e where
    "60 \<le> seconds_diff (clock_now w) (max_datetime_for_user d (hash (from_user_id u)))"
    "number_of_requests_per_day d (hash (from_user_id u)) (combine_min_time (clock_today w)) = Inl e"
    "r = Inl e" "s' = \<lparr>df = d, trace = []\<rparr>"
  | n where
    "60 \<le> seconds_diff (clock_now w) (max_datetime_for_user d (hash (from_user_id u)))"
    "number_of_requests_per_day d (hash (from_user_id u)) (combine_min_time (clock_today w)) = Inr n"
    "5 < n"
    "bind (bot_call w (SendMessage (chat_id u) (QuotaText 5))) (\<lambda>_. return EMPTY_MESSAGE)
       \<lparr>df = d, trace = []\<rparr> = (r, s')"
  | n where
    "60 \<le> seconds_diff (clock_now w) (max_datetime_for_user d (hash (from_user_id u)))"
    "number_of_requests_per_day d (hash (from_user_id u)) (combine_min_time (clock_today w)) = Inr n"
    "n \<le> 5" "prompt = []"
    "bind (bot_call w (SendMessage (chat_id u) AskPromptText)) (\<lambda>_. return EMPTY_MESSAGE)
       \<lparr>df = d, trace = []\<rparr> = (r, s')"
  | n where
    "60 \<le> seconds_diff (clock_now w) (max_datetime_for_user d (hash (from_user_id u)))"
    "number_of_requests_per_day d (hash (from_user_id u)) (combine_min_time (clock_today w)) = Inr n"
    "n \<le> 5" "prompt \<noteq> []"
    "generate w u prompt (chat_id u) (clock_now w) (hash (from_user_id u)) default_size
       \<lparr>df = d, trace = []\<rparr> = (r, s')"
  using run
  unfolding check_if_prompt_empty_and_message_not_too_early_def Let_def min_requests_delay_def
    max_images_per_day_def
  by (auto split: if_splits sum.splits)

subsection \<open>The conversation state after a request\<close>

text \<open>
  When \<open>generate\<close> returns, it returns \<open>MESSAGE\<close>, and it has sent the photo, the
  policy notice or the provider's error.
\<close>

lemma generate_outcome:
  assumes "generate w u prompt chat t h sz \<lparr>df = d, trace = []\<rparr> = (Inr st, s')"
  shows "st = MESSAGE
       \<and> outcome_of (Inr st, s') \<in> {Some Blocked, Some Delivered, Some ProviderError}"
  using assms
  by (auto simp: generate_def run_defs Let_def outcome_of_def List.map_filter_simps
      split: option.splits sum.splits exn.splits if_splits prod.splits)

text \<open>
  C2, as stated, fails: every outcome other than \<open>PromptRequired\<close> should leave the
  conversation in \<open>MESSAGE\<close> (the specification's AwaitingCommand), but the request
  sent 59 seconds after an accepted one has the outcome \<open>TooSoon\<close> and the handler
  returns \<open>EMPTY_MESSAGE\<close> (AwaitingPrompt).
\<close>

theorem too_soon_moves_to_EMPTY_MESSAGE:
  "outcome_of (check_if_prompt_empty_and_message_not_too_early
       (example_env (at_time 738644 43259) 738644 (Inr False)) (example_update (lit ''a cat'')) (lit ''a cat'')
       \<lparr>df = in_process [example_row (at_time 738644 43200)], trace = []\<rparr>) = Some (TooSoon 1)
   \<and> fst (check_if_prompt_empty_and_message_not_too_early
       (example_env (at_time 738644 43259) 738644 (Inr False)) (example_update (lit ''a cat'')) (lit ''a cat'')
       \<lparr>df = in_process [example_row (at_time 738644 43200)], trace = []\<rparr>) = Inr EMPTY_MESSAGE"
  by (simp add: request_59s_later_is_too_soon outcome_of_def List.map_filter_simps)

text \<open>
  C2, amended: whenever the handler returns, the run has an outcome; after
  \<open>TooSoon\<close>, \<open>QuotaExceeded\<close> and \<open>PromptRequired\<close> the returned state is
  \<open>EMPTY_MESSAGE\<close>, after \<open>Blocked\<close>, \<open>Delivered\<close> and \<open>ProviderError\<close> it is
  \<open>MESSAGE\<close>. Both entry points return what this function returns.
\<close>

theorem state_after_each_outcome:
  assumes run: "check_if_prompt_empty_and_message_not_too_early w u prompt \<lparr>df = d, trace = []\<rparr>
                = (Inr st, s')"
  shows "case outcome_of (Inr st, s') of
           None \<Rightarrow> False
         | Some (TooSoon wait) \<Rightarrow> st = EMPTY_MESSAGE
         | Some QuotaExceeded \<Rightarrow> st = EMPTY_MESSAGE
         | Some PromptRequired \<Rightarrow> st = EMPTY_MESSAGE
         | Some Blocked \<Rightarrow> st = MESSAGE
         | Some Delivered \<Rightarrow> st = MESSAGE
         | Some ProviderError \<Rightarrow> st = MESSAGE"
  using run
proof (cases rule: check_cases)
  case soon
  then show ?thesis
    by (auto simp: notify_run outcome_of_def List.map_filter_simps split: option.splits)
next
  case (raised e)
  then show ?thesis
    by simp
next
  case (quota n)
  then show ?thesis
    by (auto simp: notify_run outcome_of_def List.map_filter_simps split: option.splits)
next
  case (empty n)
  then show ?thesis
    by (auto simp: notify_run outcome_of_def List.map_filter_simps split: option.splits)
next
  case (admitted n)
  from generate_outcome [OF admitted(5)] show ?thesis
    by auto
qed

text \<open>The amended C2 at a flagged prompt: the run is \<open>Blocked\<close> and returns \<open>MESSAGE\<close>.\<close>

theorem state_after_each_outcome_witness:
  "check_if_prompt_empty_and_message_not_too_early
     (example_env (at_time 738644 43200) 738644 (Inr True)) (example_update (lit ''a cat'')) (lit ''a cat'')
     \<lparr>df = [], trace = []\<rparr>
   = (Inr MESSAGE,
      \<lparr>df = in_process [example_row (at_time 738644 43200)],
       trace = [SendChatAction 7 TYPING, ToCsv [example_row (at_time 738644 43200)],
                ModerationCreate (lit ''a cat''),
                SendMessage 7 PolicyText, SendMessage 1 (PolicyTextDev (lit ''a cat''))]\<rparr>)
   \<and> outcome_of (Inr MESSAGE,
      \<lparr>df = in_process [example_row (at_time 738644 43200)],
       trace = [SendChatAction 7 TYPING, ToCsv [example_row (at_time 738644 43200)],
                ModerationCreate (lit ''a cat''),
                SendMessage 7 PolicyText, SendMessage 1 (PolicyTextDev (lit ''a cat''))]\<rparr>) = Some Blocked"
proof -
  have run: "check_if_prompt_empty_and_message_not_too_early
     (example_env (at_time 738644 43200) 738644 (Inr True)) (example_update (lit ''a cat'')) (lit ''a cat'')
     \<lparr>df = [], trace = []\<rparr>
   = (Inr MESSAGE,
      \<lparr>df = in_process [example_row (at_time 738644 43200)],
       trace = [SendChatAction 7 TYPING, ToCsv [example_row (at_time 738644 43200)],
                ModerationCreate (lit ''a cat''),
                SendMessage 7 PolicyText, SendMessage 1 (PolicyTextDev (lit ''a cat''))]\<rparr>)"
    by (simp add: check_defs clock_defs select_defs example_defs run_defs generate_def example_facts)
  from state_after_each_outcome [OF run] run show ?thesis
    by (simp add: outcome_of_def List.map_filter_simps)
qed

subsection \<open>The row is written before the provider is called\<close>

text \<open>
  A run of \<open>generate\<close> that calls the provider starts with the typing indicator, the
  write of all rows with the new row at their end, and the moderation call, in this
  order.
\<close>

lemma generate_reaches_provider:
  assumes run: "generate w u prompt chat t h sz \<lparr>df = d, trace = []\<rparr> = (r, s')"
    and call: "\<exists>e \<in> set (trace s'). is_provider_call e"
  shows "(\<exists>post. trace s' = SendChatAction chat TYPING #
            ToCsv (map snd d @ [\<lparr>col_group = (case chat_type u of None \<Rightarrow> False
                                         | Some ty \<Rightarrow> str_in (lit ''group'') ty),
                           col_timestamp = t, col_prompt = prompt, col_size = sz,
                           col_hashed_user = h\<rparr>]) #
            ModerationCreate prompt # post)
       \<and> to_csv w (map snd d @ [\<lparr>col_group = (case chat_type u of None \<Rightarrow> False
                                         | Some ty \<Rightarrow> str_in (lit ''group'') ty),
                           col_timestamp = t, col_prompt = prompt, col_size = sz,
                           col_hashed_user = h\<rparr>]) = None
       \<and> df s' = d @ [(0, \<lparr>col_group = (case chat_type u of None \<Rightarrow> False
                                         | Some ty \<Rightarrow> str_in (lit ''group'') ty),
                           col_timestamp = t, col_prompt = prompt, col_size = sz,
                           col_hashed_user = h\<rparr>)]"
  using assms
  by (auto simp: generate_def run_defs Let_def
      split: option.splits sum.splits exn.splits if_splits prod.splits)

text \<open>
  \<open>generate\<close> gets to the moderation call once the typing indicator and the file write
  have returned.
\<close>

lemma generate_reached:
  assumes run: "generate w u prompt chat t h sz \<lparr>df = d, trace = []\<rparr> = (r, s')"
    and typing: "bot w (SendChatAction chat TYPING) = None"
    and written: "to_csv w (map snd d @ [\<lparr>col_group = (case chat_type u of None \<Rightarrow> False
                                         | Some ty \<Rightarrow> str_in (lit ''group'') ty),
                           col_timestamp = t, col_prompt = prompt, col_size = sz,
                           col_hashed_user = h\<rparr>]) = None"
  shows "ModerationCreate prompt \<in> set (trace s')"
  using assms
  by (auto simp: generate_def run_defs Let_def
      split: option.splits sum.splits exn.splits if_splits prod.splits)

text \<open>A rejection calls nobody but the requester and leaves the frame as it was.\<close>

lemma rejection_has_no_provider_call:
  assumes "bind (bot_call w (SendMessage c n)) (\<lambda>_. return EMPTY_MESSAGE) \<lparr>df = d, trace = []\<rparr> = (r, s')"
  shows "\<not> (\<exists>e \<in> set (trace s'). is_provider_call e) \<and> df s' = d \<and> trace s' = [SendMessage c n]"
  using assms by (auto simp: notify_run)

text \<open>
  C4, as stated, fails: every request that passes both checks with a non-empty prompt
  should have its row appended and written. The first request of user 12345, at noon,
  passes both checks (a gap of 43200 seconds, a count of 0) with the prompt \<open>a cat\<close>;
  the typing indicator of line 70 times out, the handler raises, and no row is
  appended or written.
\<close>

theorem typing_indicator_fails_nothing_recorded:
  "seconds_diff (at_time 738644 43200) (max_datetime_for_user [] 12345) = 43200
   \<and> number_of_requests_per_day [] 12345 (combine_min_time 738644) = Inr 0
   \<and> lit ''a cat'' \<noteq> []
   \<and> check_if_prompt_empty_and_message_not_too_early
       (timeout_env (at_time 738644 43200) 738644) (example_update (lit ''a cat'')) (lit ''a cat'')
       \<lparr>df = [], trace = []\<rparr>
     = (Inl (OtherException (lit ''Timed out'')), \<lparr>df = [], trace = [SendChatAction 7 TYPING]\<rparr>)"
  by (simp add: check_defs clock_defs select_defs example_defs timeout_env_def run_defs generate_def
      example_facts)

text \<open>
  C4, amended: for every request for which a call to the provider (the moderation
  check or the image generation) is issued, and so for every request that passes both
  checks with a non-empty prompt and whose typing indicator and file write return:
  the calls issued start with the typing indicator, then the rewrite of the file with
  all rows and the new row at their end, which returned without error, then the
  moderation call; every later call, the image generation among them, follows these.
  The frame holds the new row whatever the provider answers, also when the run ends
  in an exception.
\<close>

theorem row_written_before_provider_calls:
  assumes run: "check_if_prompt_empty_and_message_not_too_early w u prompt \<lparr>df = d, trace = []\<rparr>
                = (r, s')"
  shows "let new_row = \<lparr>col_group = (case chat_type u of None \<Rightarrow> False
                                         | Some ty \<Rightarrow> str_in (lit ''group'') ty),
                         col_timestamp = clock_now w, col_prompt = prompt, col_size = 256,
                         col_hashed_user = hash (from_user_id u)\<rparr>
         in (\<exists>e \<in> set (trace s'). is_provider_call e)
            \<or> (60 \<le> seconds_diff (clock_now w) (max_datetime_for_user d (hash (from_user_id u)))
               \<and> number_of_requests_per_day d (hash (from_user_id u))
                     (combine_min_time (clock_today w)) = Inr n
               \<and> n \<le> 5 \<and> prompt \<noteq> []
               \<and> bot w (SendChatAction (chat_id u) TYPING) = None
               \<and> to_csv w (map snd d @ [new_row]) = None)
            \<longrightarrow> (\<exists>post. trace s' = SendChatAction (chat_id u) TYPING #
                           ToCsv (map snd d @ [new_row]) # ModerationCreate prompt # post)
                \<and> to_csv w (map snd d @ [new_row]) = None
                \<and> df s' = d @ [(0, new_row)]"
  using run
proof (cases rule: check_cases)
  case soon
  from rejection_has_no_provider_call [OF soon(2)] soon(1) show ?thesis
    by (simp add: Let_def)
next
  case (raised e)
  then show ?thesis
    by (simp add: Let_def)
next
  case (quota k)
  from rejection_has_no_provider_call [OF quota(4)] quota(2,3) show ?thesis
    by (auto simp: Let_def)
next
  case (empty k)
  from rejection_has_no_provider_call [OF empty(5)] empty(4) show ?thesis
    by (simp add: Let_def)
next
  case (admitted k)
  have "\<exists>e \<in> set (trace s'). is_provider_call e"
    if "ModerationCreate prompt \<in> set (trace s')"
    using that by (auto intro!: bexI [where x = "ModerationCreate prompt"])
  with generate_reaches_provider [OF admitted(5)] generate_reached [OF admitted(5)]
  show ?thesis
    by (auto simp: Let_def default_size_def)
qed

text \<open>
  The amended C4 at a first request, admitted, whose moderation call fails with an
  exception that is not caught: the row is in the frame and was written before.
\<close>

theorem row_written_before_provider_calls_witness:
  "check_if_prompt_empty_and_message_not_too_early
     (example_env (at_time 738644 43200) 738644 (Inl (OtherException (lit ''timeout''))))
     (example_update (lit ''a cat'')) (lit ''a cat'') \<lparr>df = [], trace = []\<rparr>
   = (Inl (OtherException (lit ''timeout'')),
      \<lparr>df = in_process [example_row (at_time 738644 43200)],
       trace = [SendChatAction 7 TYPING, ToCsv [example_row (at_time 738644 43200)],
                ModerationCreate (lit ''a cat'')]\<rparr>)
   \<and> is_provider_call (ModerationCreate (lit ''a cat''))
   \<and> seconds_diff (at_time 738644 43200) (max_datetime_for_user [] 12345) = 43200
   \<and> number_of_requests_per_day [] 12345 (combine_min_time 738644) = Inr 0"
proof -
  let ?w = "example_env (at_time 738644 43200) 738644 (Inl (OtherException (lit ''timeout'')))"
  let ?s = "\<lparr>df = in_process [example_row (at_time 738644 43200)],
       trace = [SendChatAction 7 TYPING, ToCsv [example_row (at_time 738644 43200)],
                ModerationCreate (lit ''a cat'')]\<rparr>"
  have run: "check_if_prompt_empty_and_message_not_too_early ?w
     (example_update (lit ''a cat'')) (lit ''a cat'') \<lparr>df = [], trace = []\<rparr>
     = (Inl (OtherException (lit ''timeout'')), ?s)"
    by (simp add: check_defs clock_defs select_defs example_defs run_defs generate_def example_facts)
  have admitted: "seconds_diff (at_time 738644 43200) (max_datetime_for_user [] 12345) = 43200"
    "number_of_requests_per_day [] 12345 (combine_min_time 738644) = Inr 0"
    by (simp_all add: max_datetime_for_user_def clock_defs select_defs at_time_def)
  from row_written_before_provider_calls [OF run, of 0] run admitted
  show ?thesis
    by (simp add: Let_def)
qed

subsection \<open>The daily quota\<close>

text \<open>\<open>generate\<close> never sends the quota notice.\<close>

lemma generate_sends_no_quota_notice:
  assumes "generate w u prompt chat t h sz \<lparr>df = d, trace = []\<rparr> = (r, s')"
  shows "SendMessage c (QuotaText limit) \<notin> set (trace s')"
  using assms
  by (auto simp: generate_def run_defs Let_def
      split: option.splits sum.splits exn.splits if_splits prod.splits)

text \<open>
  The comparison of line 152, on a count that line 150 has computed: the quota notice
  is sent exactly when the interval check passes and the count exceeds 5; it is then
  the only call, and the frame is unchanged.
\<close>

lemma quota_rule_on_the_count:
  assumes run: "check_if_prompt_empty_and_message_not_too_early w u prompt \<lparr>df = d, trace = []\<rparr>
                = (r, s')"
    and count: "number_of_requests_per_day d (hash (from_user_id u))
                  (combine_min_time (clock_today w)) = Inr n"
  shows "if 60 \<le> seconds_diff (clock_now w) (max_datetime_for_user d (hash (from_user_id u)))
            \<and> 5 < n
         then trace s' = [SendMessage (chat_id u) (QuotaText 5)] \<and> df s' = d
         else \<forall>c limit. SendMessage c (QuotaText limit) \<notin> set (trace s')"
  using run
proof (cases rule: check_cases)
  case soon
  then show ?thesis
    by (auto simp: notify_run)
next
  case (raised e)
  with count show ?thesis
    by simp
next
  case (quota k)
  with count show ?thesis
    by (auto simp: notify_run)
next
  case (empty k)
  with count show ?thesis
    by (auto simp: notify_run)
next
  case (admitted k)
  with count generate_sends_no_quota_notice [OF admitted(5)] show ?thesis
    by auto
qed

text \<open>
  C5. The claim: a request is rejected with the quota notice exactly when the identity
  has more than 5 rows since the start of the day. The code: in one process user 12345
  had six requests accepted on 2023-05-05, from 01:00 to 06:00, and user 999 one at
  07:00, so all seven labels are 0. At noon user 12345 asks again: six of its rows are
  of the day and the gap is 21600 seconds, but at line 150 the mask of the whole frame
  is re-aligned on the six labels of the selection, a position outside the selection
  is taken, and the handler raises \<open>IndexError\<close>. No notice is sent.
\<close>

theorem quota_count_raises_with_two_users:
  "length (filter (\<lambda>x. col_hashed_user (snd x) = 12345
                       \<and> combine_min_time 738644 \<le> col_timestamp (snd x))
             (in_process (example_rows @ [other_row (at_time 738644 25200)]))) = 6
   \<and> seconds_diff (at_time 738644 43200)
        (max_datetime_for_user (in_process (example_rows @ [other_row (at_time 738644 25200)]))
           12345) = 21600
   \<and> check_if_prompt_empty_and_message_not_too_early
       (example_env (at_time 738644 43200) 738644 (Inr False)) (example_update (lit ''a cat''))
       (lit ''a cat'')
       \<lparr>df = in_process (example_rows @ [other_row (at_time 738644 25200)]), trace = []\<rparr>
     = (Inl IndexError,
        \<lparr>df = in_process (example_rows @ [other_row (at_time 738644 25200)]), trace = []\<rparr>)"
  by (simp add: check_defs clock_defs select_defs example_defs run_defs)

text \<open>
  The same exception stops a request that is under the quota. User 999 had a request
  accepted on 2023-05-04 at noon and user 12345 one on 2023-05-05 at 01:00, in one
  process. At noon of 2023-05-05 user 12345, with one row of the day, asks again and
  the handler raises \<open>IndexError\<close>.
\<close>

lemma quota_count_raises_under_the_quota:
  "check_if_prompt_empty_and_message_not_too_early
     (example_env (at_time 738644 43200) 738644 (Inr False)) (example_update (lit ''a cat''))
     (lit ''a cat'')
     \<lparr>df = in_process [other_row (at_time 738643 43200), example_row (at_time 738644 3600)],
      trace = []\<rparr>
   = (Inl IndexError,
      \<lparr>df = in_process [other_row (at_time 738643 43200), example_row (at_time 738644 3600)],
       trace = []\<rparr>)"
  by (simp add: check_defs clock_defs select_defs example_defs run_defs)

subsection \<open>A flagged prompt\<close>

text \<open>
  \<open>generate\<close> after a moderation call that answers \<open>flagged\<close>: no image call, the
  policy notice to the requester right after the moderation call, and then, when that
  send returned, the notice with the prompt to the developer chat.
\<close>

lemma generate_flagged:
  assumes run: "generate w u prompt chat t h sz \<lparr>df = d, trace = []\<rparr> = (r, s')"
    and reached: "ModerationCreate prompt \<in> set (trace s')"
    and flagged: "moderation w prompt = Inr True"
  shows "(\<forall>p n z usr. ImageCreate p n z usr \<notin> set (trace s'))
       \<and> (\<exists>pre. trace s' = pre @ ModerationCreate prompt # SendMessage chat PolicyText #
             (if bot w (SendMessage chat PolicyText) = None
              then [SendMessage (developer_chat_id w) (PolicyTextDev prompt)] else []))
       \<and> (bot w (SendMessage chat PolicyText) = None \<and>
          bot w (SendMessage (developer_chat_id w) (PolicyTextDev prompt)) = None
          \<longrightarrow> r = Inr MESSAGE \<and> outcome_of (r, s') = Some Blocked)"
  using assms
  by (auto simp: generate_def run_defs Let_def outcome_of_def List.map_filter_simps
      split: option.splits sum.splits exn.splits if_splits prod.splits)

text \<open>
  C6, as stated, fails: for every admitted request that is flagged, the developer chat
  should get the notice with the prompt. The first request of user 12345 is admitted
  and flagged; the policy notice to the requester, line 101, times out; the
  \<open>except\<close> clause of lines 108 and 109 raises it again, and line 102 is never run.
\<close>

theorem flagged_prompt_requester_times_out:
  "moderation (requester_timeout_env (at_time 738644 43200) 738644) (lit ''a cat'') = Inr True
   \<and> check_if_prompt_empty_and_message_not_too_early
       (requester_timeout_env (at_time 738644 43200) 738644) (example_update (lit ''a cat''))
       (lit ''a cat'') \<lparr>df = [], trace = []\<rparr>
     = (Inl (OtherException (lit ''Timed out'')),
        \<lparr>df = in_process [example_row (at_time 738644 43200)],
         trace = [SendChatAction 7 TYPING, ToCsv [example_row (at_time 738644 43200)],
                  ModerationCreate (lit ''a cat''), SendMessage 7 PolicyText]\<rparr>)"
  by (simp add: check_defs clock_defs select_defs example_defs requester_timeout_env_def run_defs
      generate_def example_facts)

text \<open>
  C6, amended: for every request whose moderation call is made and answers \<open>flagged\<close>:
  the image generation is never called; the policy notice, which does not depend on
  the prompt, is sent to the requester right after the moderation call; once that
  send has returned, the notice to the developer chat follows, and its text contains
  the prompt; when both sends return, the handler returns \<open>MESSAGE\<close> and the outcome
  is \<open>Blocked\<close>.
\<close>

theorem flagged_prompt_is_blocked:
  assumes run: "check_if_prompt_empty_and_message_not_too_early w u prompt \<lparr>df = d, trace = []\<rparr>
                = (r, s')"
    and reached: "ModerationCreate prompt \<in> set (trace s')"
    and flagged: "moderation w prompt = Inr True"
  shows "(\<forall>p n z usr. ImageCreate p n z usr \<notin> set (trace s'))
       \<and> (\<exists>pre. trace s' = pre @ ModerationCreate prompt # SendMessage (chat_id u) PolicyText #
             (if bot w (SendMessage (chat_id u) PolicyText) = None
              then [SendMessage (developer_chat_id w) (PolicyTextDev prompt)] else []))
       \<and> (bot w (SendMessage (chat_id u) PolicyText) = None \<and>
          bot w (SendMessage (developer_chat_id w) (PolicyTextDev prompt)) = None
          \<longrightarrow> r = Inr MESSAGE \<and> outcome_of (r, s') = Some Blocked)
       \<and> (\<exists>a b. render (PolicyTextDev prompt) = a @ prompt @ b)"
proof -
  have wording: "\<exists>a b. render (PolicyTextDev prompt) = a @ prompt @ b"
    by (intro exI) (rule render.simps)
  from run show ?thesis
  proof (cases rule: check_cases)
    case soon
    from rejection_has_no_provider_call [OF soon(2)] reached show ?thesis
      by simp
  next
    case (raised e)
    with reached show ?thesis
      by simp
  next
    case (quota n)
    from rejection_has_no_provider_call [OF quota(4)] reached show ?thesis
      by simp
  next
    case (empty n)
    from rejection_has_no_provider_call [OF empty(5)] reached show ?thesis
      by simp
  next
    case (admitted n)
    from generate_flagged [OF admitted(5) reached flagged] wording show ?thesis
      by blast
  qed
qed

text \<open>The amended C6 at a flagged prompt of user 12345, who has two rows of the day.\<close>

theorem flagged_prompt_is_blocked_witness:
  "check_if_prompt_empty_and_message_not_too_early
     (example_env (at_time 738644 43200) 738644 (Inr True)) (example_update (lit ''a cat''))
     (lit ''a cat'') \<lparr>df = in_process (take 2 example_rows), trace = []\<rparr>
   = (Inr MESSAGE,
      \<lparr>df = in_process (take 2 example_rows @ [example_row (at_time 738644 43200)]),
       trace = [SendChatAction 7 TYPING,
                ToCsv (take 2 example_rows @ [example_row (at_time 738644 43200)]),
                ModerationCreate (lit ''a cat''),
                SendMessage 7 PolicyText, SendMessage 1 (PolicyTextDev (lit ''a cat''))]\<rparr>)
   \<and> moderation (example_env (at_time 738644 43200) 738644 (Inr True)) (lit ''a cat'') = Inr True
   \<and> outcome_of (Inr MESSAGE,
      \<lparr>df = in_process (take 2 example_rows @ [example_row (at_time 738644 43200)]),
       trace = [SendChatAction 7 TYPING,
                ToCsv (take 2 example_rows @ [example_row (at_time 738644 43200)]),
                ModerationCreate (lit ''a cat''),
                SendMessage 7 PolicyText, SendMessage 1 (PolicyTextDev (lit ''a cat''))]\<rparr>)
     = Some Blocked"
proof -
  let ?w = "example_env (at_time 738644 43200) 738644 (Inr True)"
  let ?s = "\<lparr>df = in_process (take 2 example_rows @ [example_row (at_time 738644 43200)]),
       trace = [SendChatAction 7 TYPING,
                ToCsv (take 2 example_rows @ [example_row (at_time 738644 43200)]),
                ModerationCreate (lit ''a cat''),
                SendMessage 7 PolicyText, SendMessage 1 (PolicyTextDev (lit ''a cat''))]\<rparr>"
  have run: "check_if_prompt_empty_and_message_not_too_early ?w (example_update (lit ''a cat''))
     (lit ''a cat'') \<lparr>df = in_process (take 2 example_rows), trace = []\<rparr> = (Inr MESSAGE, ?s)"
    by (simp add: check_defs clock_defs select_defs example_defs run_defs generate_def example_facts)
  have reached: "ModerationCreate (lit ''a cat'') \<in> set (trace ?s)"
    by simp
  have flagged: "moderation ?w (lit ''a cat'') = Inr True"
    by (simp add: example_env_def)
  from flagged_prompt_is_blocked [OF run reached flagged] run flagged show ?thesis
    by (simp add: example_env_def example_update_def)
qed

subsection \<open>A prompt that is empty after trimming\<close>

text \<open>\<open>strip\<close> leaves nothing exactly of the strings that hold whitespace only.\<close>

lemma all_dropWhile: "(\<forall>x \<in> set (dropWhile P xs). P x) \<longleftrightarrow> (\<forall>x \<in> set xs. P x)"
  by (induction xs) auto

lemma strip_empty_iff: "strip s = [] \<longleftrightarrow> (\<forall>c \<in> set s. isspace c)"
  by (simp add: strip_def dropWhile_eq_Nil_conv all_dropWhile)

text \<open>
  With an empty prompt the three checks run in the order of the source: the interval,
  the quota, and only then the prompt.
\<close>

lemma check_empty_prompt:
  assumes run: "check_if_prompt_empty_and_message_not_too_early w u [] \<lparr>df = d, trace = []\<rparr>
                = (r, s')"
  shows "df s' = d
       \<and> (\<forall>e \<in> set (trace s'). \<not> is_provider_call e \<and> (\<forall>rows. e \<noteq> ToCsv rows))
       \<and> (seconds_diff (clock_now w) (max_datetime_for_user d (hash (from_user_id u))) < 60 \<longrightarrow>
            trace s' = [SendMessage (chat_id u) (TooSoonText 60
              (60 - seconds_diff (clock_now w) (max_datetime_for_user d (hash (from_user_id u)))))])
       \<and> (60 \<le> seconds_diff (clock_now w) (max_datetime_for_user d (hash (from_user_id u)))
          \<and> number_of_requests_per_day d (hash (from_user_id u))
                (combine_min_time (clock_today w)) = Inr n \<longrightarrow>
            trace s' = [SendMessage (chat_id u) (if 5 < n then QuotaText 5 else AskPromptText)])
       \<and> (r = Inr EMPTY_MESSAGE \<or> (\<exists>e. r = Inl e))"
  using run
proof (cases rule: check_cases)
  case soon
  then show ?thesis
    by (auto simp: notify_run split: option.splits)
next
  case (raised e)
  then show ?thesis
    by simp
next
  case (quota k)
  then show ?thesis
    by (auto simp: notify_run split: option.splits)
next
  case (empty k)
  then show ?thesis
    by (auto simp: notify_run split: option.splits)
next
  case (admitted k)
  then show ?thesis
    by simp
qed

text \<open>
  C7, as stated, fails: the outcome of a blank prompt should always be
  \<open>PromptRequired\<close>, whatever the interval and quota state of the identity. The message
  of three spaces sent 59 seconds after an accepted request is blank after trimming,
  and its outcome is \<open>TooSoon\<close> with 1 second to wait.
\<close>

theorem blank_prompt_too_soon:
  "strip (lit ''   '') = []
   \<and> outcome_of (generate_from_message (example_env (at_time 738644 43259) 738644 (Inr False))
        (example_update (lit ''   ''))
        \<lparr>df = in_process [example_row (at_time 738644 43200)], trace = []\<rparr>)
     = Some (TooSoon 1)"
  by (simp add: generate_from_message_def strip_def isspace_def lit_def check_defs clock_defs
      example_defs run_defs outcome_of_def List.map_filter_simps)

text \<open>
  C7, amended: for every text that is empty after trimming, sent as a message or as
  the arguments of the command, the frame is left as it was, and no call is a provider
  call or a write of the file. The interval and the quota are checked before the
  prompt: when the gap is below 60 seconds the only call is the too-soon notice;
  when the gap is 60 seconds or more and line 150 has computed the count, the only
  call is the quota notice for a count above 5, and the request for a prompt
  otherwise.
\<close>

theorem blank_prompt_is_never_recorded:
  assumes blank: "strip raw = []"
    and handler: "(handler = generate_from_message w u \<and> message_text u = raw)
                \<or> (handler = generate_from_command w u args \<and> join (lit '' '') args = raw)"
    and run: "handler \<lparr>df = d, trace = []\<rparr> = (r, s')"
  shows "df s' = d
       \<and> (\<forall>e \<in> set (trace s'). \<not> is_provider_call e \<and> (\<forall>rows. e \<noteq> ToCsv rows))
       \<and> (seconds_diff (clock_now w) (max_datetime_for_user d (hash (from_user_id u))) < 60 \<longrightarrow>
            trace s' = [SendMessage (chat_id u) (TooSoonText 60
              (60 - seconds_diff (clock_now w) (max_datetime_for_user d (hash (from_user_id u)))))])
       \<and> (60 \<le> seconds_diff (clock_now w) (max_datetime_for_user d (hash (from_user_id u)))
          \<and> number_of_requests_per_day d (hash (from_user_id u))
                (combine_min_time (clock_today w)) = Inr n \<longrightarrow>
            trace s' = [SendMessage (chat_id u) (if 5 < n then QuotaText 5 else AskPromptText)])
       \<and> (r = Inr EMPTY_MESSAGE \<or> (\<exists>e. r = Inl e))"
proof -
  from handler run blank
  have "check_if_prompt_empty_and_message_not_too_early w u [] \<lparr>df = d, trace = []\<rparr> = (r, s')"
    by (auto simp: generate_from_message_def generate_from_command_def)
  then show ?thesis
    by (rule check_empty_prompt)
qed

text \<open>The gap and the count of user 12345 at noon, alone in the frame with six rows and with five.\<close>

lemma example_rows_facts:
  "seconds_diff (at_time 738644 43200) (max_datetime_for_user (in_process example_rows) 12345) = 21600"
  "seconds_diff (at_time 738644 43200)
     (max_datetime_for_user (in_process (take 5 example_rows)) 12345) = 25200"
  "number_of_requests_per_day (in_process example_rows) 12345 (combine_min_time 738644) = Inr 6"
  "number_of_requests_per_day (in_process (take 5 example_rows)) 12345 (combine_min_time 738644)
   = Inr 5"
  by (simp_all add: max_datetime_for_user_def clock_defs select_defs example_defs)

text \<open>
  The amended C7 at a message of three spaces from user 12345 at noon, with five rows
  of the day: the bot asks for a prompt and the frame is unchanged.
\<close>

theorem blank_prompt_is_never_recorded_witness:
  "strip (lit ''   '') = []
   \<and> number_of_requests_per_day (in_process (take 5 example_rows)) 12345 (combine_min_time 738644)
     = Inr 5
   \<and> generate_from_message (example_env (at_time 738644 43200) 738644 (Inr False))
        (example_update (lit ''   '')) \<lparr>df = in_process (take 5 example_rows), trace = []\<rparr>
     = (Inr EMPTY_MESSAGE,
        \<lparr>df = in_process (take 5 example_rows), trace = [SendMessage 7 AskPromptText]\<rparr>)"
proof -
  let ?w = "example_env (at_time 738644 43200) 738644 (Inr False)"
  let ?u = "example_update (lit ''   '')"
  let ?run = "generate_from_message ?w ?u \<lparr>df = in_process (take 5 example_rows), trace = []\<rparr>"
  have blank: "strip (lit ''   '') = []"
    by (simp add: strip_def isspace_def lit_def)
  have handler: "(generate_from_message ?w ?u = generate_from_message ?w ?u
          \<and> message_text ?u = lit ''   '')
      \<or> (generate_from_message ?w ?u = generate_from_command ?w ?u []
          \<and> join (lit '' '') [] = lit ''   '')"
    by (simp add: example_update_def)
  have env: "clock_now ?w = at_time 738644 43200" "clock_today ?w = 738644"
    "hash (from_user_id ?u) = 12345" "chat_id ?u = 7" "bot ?w = (\<lambda>c. None)"
    by (simp_all add: example_env_def example_update_def hash_small)
  have returned: "fst ?run = Inr EMPTY_MESSAGE"
    by (simp add: generate_from_message_def blank check_defs clock_defs select_defs example_defs
        run_defs)
  have "?run = (fst ?run, snd ?run)"
    by simp
  from blank_prompt_is_never_recorded [OF blank handler this, of 5] returned blank show ?thesis
    by (simp add: env example_rows_facts prod_eq_iff)
qed

subsection \<open>The size of the image\<close>

text \<open>\<open>generate\<close> with the size 256 stores that size and asks for one image of it.\<close>

lemma generate_size:
  assumes "generate w u prompt chat t h 256 \<lparr>df = d, trace = []\<rparr> = (r, s')"
  shows "(df s' = d \<or> (\<exists>new_row. df s' = d @ [(0, new_row)] \<and> col_size new_row = 256))
       \<and> (\<forall>p n z usr. ImageCreate p n z usr \<in> set (trace s') \<longrightarrow> n = 1 \<and> z = lit ''256x256'')"
proof -
  have size_text: "str_int 256 @ lit ''x'' @ str_int 256 = lit ''256x256''"
    by (simp add: str_int_256) (simp add: lit_def)
  from assms show ?thesis
    by (auto simp: generate_def run_defs Let_def size_text
        split: option.splits sum.splits exn.splits if_splits prod.splits)
qed

text \<open>
  \<open>check_if_prompt_empty_and_message_not_too_early\<close> calls \<open>generate\<close> without a size,
  so the default applies.
\<close>

lemma check_size:
  assumes run: "check_if_prompt_empty_and_message_not_too_early w u prompt \<lparr>df = d, trace = []\<rparr>
                = (r, s')"
  shows "(df s' = d \<or> (\<exists>new_row. df s' = d @ [(0, new_row)] \<and> col_size new_row = 256))
       \<and> (\<forall>p n z usr. ImageCreate p n z usr \<in> set (trace s') \<longrightarrow> n = 1 \<and> z = lit ''256x256'')"
  using run
proof (cases rule: check_cases)
  case soon
  then show ?thesis
    by (auto simp: notify_run)
next
  case (raised e)
  then show ?thesis
    by simp
next
  case (quota k)
  then show ?thesis
    by (auto simp: notify_run)
next
  case (empty k)
  then show ?thesis
    by (auto simp: notify_run)
next
  case (admitted k)
  then show ?thesis
    using generate_size by (simp add: default_size_def)
qed

text \<open>
  C10. For both entry points, \<open>generate_from_message\<close> and \<open>generate_from_command\<close>:
  the frame is unchanged or has one new row, whose size is 256, and every image call
  issued asks for \<open>n = 1\<close> image of size \<open>256x256\<close>.
\<close>

theorem size_is_always_256:
  assumes handler: "handler = generate_from_message w u \<or> handler = generate_from_command w u args"
    and run: "handler \<lparr>df = d, trace = []\<rparr> = (r, s')"
  shows "(df s' = d \<or> (\<exists>new_row. df s' = d @ [(0, new_row)] \<and> col_size new_row = 256))
       \<and> (\<forall>p n z usr. ImageCreate p n z usr \<in> set (trace s') \<longrightarrow> n = 1 \<and> z = lit ''256x256'')"
  using handler run check_size
  unfolding generate_from_message_def generate_from_command_def
  by blast

text \<open>The prompt of the command \<open>/generate a cat\<close>.\<close>

lemma join_a_cat: "strip (join (lit '' '') [lit ''a'', lit ''cat'']) = lit ''a cat''"
  by (simp add: strip_def isspace_def lit_def)

text \<open>C10 at the command \<open>/generate a cat\<close> of user 12345, whose frame is empty.\<close>

theorem size_is_always_256_witness:
  "generate_from_command (example_env (at_time 738644 43200) 738644 (Inr False))
      (example_update []) [lit ''a'', lit ''cat''] \<lparr>df = [], trace = []\<rparr>
   = (Inr MESSAGE,
        \<lparr>df = in_process [example_row (at_time 738644 43200)],
         trace = [SendChatAction 7 TYPING, ToCsv [example_row (at_time 738644 43200)],
                  ModerationCreate (lit ''a cat''),
                  ImageCreate (lit ''a cat'') 1 (lit ''256x256'') (lit ''12345''),
                  SendPhoto 7 (lit ''https://img'') (lit ''a cat''),
                  SendPhoto 1 (lit ''https://img'') (lit ''single user: a cat'')]\<rparr>)
   \<and> col_size (example_row (at_time 738644 43200)) = 256"
proof -
  let ?w = "example_env (at_time 738644 43200) 738644 (Inr False)"
  let ?h = "generate_from_command ?w (example_update []) [lit ''a'', lit ''cat'']"
  let ?s = "\<lparr>df = in_process [example_row (at_time 738644 43200)],
         trace = [SendChatAction 7 TYPING, ToCsv [example_row (at_time 738644 43200)],
                  ModerationCreate (lit ''a cat''),
                  ImageCreate (lit ''a cat'') 1 (lit ''256x256'') (lit ''12345''),
                  SendPhoto 7 (lit ''https://img'') (lit ''a cat''),
                  SendPhoto 1 (lit ''https://img'') (lit ''single user: a cat'')]\<rparr>"
  have run: "?h \<lparr>df = [], trace = []\<rparr> = (Inr MESSAGE, ?s)"
    by (simp only: generate_from_command_def join_a_cat)
      (simp add: check_defs clock_defs select_defs example_defs run_defs generate_def str_int_256
        str_int_12345 example_facts, simp add: lit_def)
  have handler: "?h = generate_from_message ?w (example_update []) \<or> ?h = ?h"
    by simp
  from size_is_always_256 [OF handler run] run show ?thesis
    by (simp add: example_row_def)
qed

subsection \<open>The error report\<close>





subsection \<open>The interval check in general\<close>

text \<open>\<open>generate\<close> never sends the too-soon notice.\<close>

lemma generate_sends_no_too_soon_notice:
  assumes "generate w u prompt chat t h sz \<lparr>df = d, trace = []\<rparr> = (r, s')"
  shows "SendMessage c (TooSoonText delay wait) \<notin> set (trace s')"
  using assms
  by (auto simp: generate_def run_defs Let_def
      split: option.splits sum.splits exn.splits if_splits prod.splits)

text \<open>
  The interval check as the code has it: a request a whole number \<open>k\<close> of seconds after
  the latest timestamp of its identity (or after midnight of 2022-01-01 when there is
  none) is rejected exactly when \<open>k mod 86400 < 60\<close>, and is then told to wait
  \<open>60 - k mod 86400\<close> seconds. For \<open>k\<close> from 0 to 86399 this is the rule of the
  specification; from one day on it is not.
\<close>

lemma interval_rule:
  assumes now: "clock_now w = max_datetime_for_user d (hash (from_user_id u)) + k * us_per_second"
    and run: "check_if_prompt_empty_and_message_not_too_early w u prompt \<lparr>df = d, trace = []\<rparr>
              = (r, s')"
  shows "if k mod 86400 < 60
         then trace s' = [SendMessage (chat_id u) (TooSoonText 60 (60 - k mod 86400))] \<and> df s' = d
         else \<forall>c delay wait. SendMessage c (TooSoonText delay wait) \<notin> set (trace s')"
proof -
  from now
  have gap: "seconds_diff (clock_now w) (max_datetime_for_user d (hash (from_user_id u)))
             = k mod 86400"
    by (simp add: seconds_diff_whole_seconds)
  from run show ?thesis
  proof (cases rule: check_cases)
    case soon
    with gap show ?thesis
      by (auto simp: notify_run)
  next
    case (raised e)
    with gap show ?thesis
      by simp
  next
    case (quota n)
    with gap show ?thesis
      by (auto simp: notify_run)
  next
    case (empty n)
    with gap show ?thesis
      by (auto simp: notify_run)
  next
    case (admitted n)
    with gap generate_sends_no_too_soon_notice [OF admitted(5)] show ?thesis
      by simp
  qed
qed

end
